theory Spec2Isabelle
  imports Complex_Main
begin

section \<open>The softmax layer on the GPU: \<open>src/caffe/layers/softmax_layer.cu\<close>\<close>

text \<open>
  The kernels are templates over the element type \<open>Dtype\<close>, instantiated for \<open>float\<close> and
  \<open>double\<close>.  The finite values of both types are real numbers, and an element is
  modelled by a \<^typ>\<open>real\<close>.  Comparison and \<open>max\<close> are exact on floating-point numbers.
  Of the exponential of the element type the model keeps the underflow: a result below
  half of the least positive value of the type is \<open>0\<close>.  The rounding of \<open>-\<close>, \<open>+\<close>, \<open>*\<close>,
  \<open>/\<close> and \<open>exp\<close> is not represented, and neither are infinities and NaN: where the
  program divides by \<open>0.0\<close> its result is NaN or infinite, and the quotient of the model
  stands for no value of the program; the statements below give the operands of such a
  division, never the value of its quotient.

  C \<open>int\<close> indices and dimensions are modelled by \<^typ>\<open>nat\<close>: they are never negative,
  and every index the kernels form is below \<open>count\<close>, which the blob keeps as an \<open>int\<close>;
  wrap-around of \<open>int\<close> is not represented.  On \<^typ>\<open>nat\<close>, \<open>div\<close> and \<open>mod\<close> are the
  \<open>/\<close> and \<open>%\<close> of C; the kernels divide only inside their loops, where the divisor is
  positive.
\<close>

subsection \<open>Blobs and device memory\<close>

text \<open>
  \<open>bottom\<close> and \<open>top\<close> are vectors of pointers to blobs.  A blob is identified by
  \<open>blob_id\<close>; two entries with the same identity are the same object (an in-place layer
  has \<open>top[0] == bottom[0]\<close>).  The class \<open>Blob\<close> itself is declared elsewhere; of it the
  layer uses the shape accessors \<open>num()\<close>, \<open>channels()\<close>, \<open>height()\<close>, \<open>width()\<close>,
  \<open>count()\<close> and the two device buffers \<open>gpu_data()\<close> and \<open>gpu_diff()\<close>.
\<close>

record Blob =
  blob_id :: nat
  blob_num :: nat
  blob_channels :: nat
  blob_height :: nat
  blob_width :: nat

definition blob_count :: "Blob \<Rightarrow> nat" where
  "blob_count b = blob_num b * blob_channels b * blob_height b * blob_width b"

text \<open>
  A device pointer names one buffer: the data or the diff buffer of a blob, or the data
  buffer of the layer's own member \<open>scale_\<close>.  Device memory maps a pointer and an offset
  to the element stored there.
\<close>

datatype dev_ptr = Gpu_data nat | Gpu_diff nat | Scale_data

type_synonym memory = "dev_ptr \<Rightarrow> nat \<Rightarrow> real"

definition gpu_data :: "Blob \<Rightarrow> dev_ptr" where
  "gpu_data b = Gpu_data (blob_id b)"

definition gpu_diff :: "Blob \<Rightarrow> dev_ptr" where
  "gpu_diff b = Gpu_diff (blob_id b)"

text \<open>The assignment \<open>p[i] = v\<close>.\<close>

definition store :: "memory \<Rightarrow> dev_ptr \<Rightarrow> nat \<Rightarrow> real \<Rightarrow> memory" where
  "store m p i v = m(p := (m p)(i := v))"

text \<open>
  Modelled from the spec: the macro \<open>CUDA_KERNEL_LOOP(index, n)\<close> is defined outside this
  file.  It supplies the loop index and the upper bound: the body runs once for every
  \<open>index\<close> in \<open>[0, n)\<close>.  The passes are written here in ascending order of the index.
\<close>

definition CUDA_KERNEL_LOOP :: "nat \<Rightarrow> (nat \<Rightarrow> memory \<Rightarrow> memory) \<Rightarrow> memory \<Rightarrow> memory" where
  "CUDA_KERNEL_LOOP n body m = fold body [0..<n] m"

text \<open>
  \<open>FLT_MAX\<close> of \<open><cfloat>\<close>: the largest finite value of the single-precision type,
  \<open>(2 - 2\<^sup>-\<^sup>2\<^sup>3) * 2\<^sup>1\<^sup>2\<^sup>7\<close>.
\<close>

definition FLT_MAX :: real where
  "FLT_MAX = (2 ^ 24 - 1) * 2 ^ 104"

text \<open>
  Modelled from the spec: \<open>caffe_copy\<close> and \<open>caffe_gpu_mul\<close> are library primitives
  defined outside this file: the copy of \<open>N\<close> elements from \<open>X\<close> to \<open>Y\<close>, and the
  elementwise product \<open>y[i] = a[i] * b[i]\<close> of \<open>N\<close> elements.
\<close>

definition caffe_copy :: "nat \<Rightarrow> dev_ptr \<Rightarrow> dev_ptr \<Rightarrow> memory \<Rightarrow> memory" where
  "caffe_copy N X Y m = m(Y := (\<lambda>i. if i < N then m X i else m Y i))"

definition caffe_gpu_mul :: "nat \<Rightarrow> dev_ptr \<Rightarrow> dev_ptr \<Rightarrow> dev_ptr \<Rightarrow> memory \<Rightarrow> memory" where
  "caffe_gpu_mul N a b y m = m(y := (\<lambda>i. if i < N then m a i * m b i else m y i))"

text \<open>
  Modelled from the spec: the \<open>exp\<close> of the device math library on the element type is
  outside this file.  It is the exponential, except that a result below half of the
  least positive value of the type (\<open>2\<^sup>-\<^sup>1\<^sup>4\<^sup>9\<close> for \<open>float\<close>, \<open>2\<^sup>-\<^sup>1\<^sup>0\<^sup>7\<^sup>4\<close> for \<open>double\<close>)
  underflows to \<open>0\<close>.  Overflow to infinity is not represented; in \<open>Forward_gpu\<close> the
  argument of \<open>exp\<close> is never positive.
\<close>

datatype Dtype = Float | Double

definition Dtype_denorm_min :: "Dtype \<Rightarrow> real" where
  "Dtype_denorm_min dtype = (case dtype of Float \<Rightarrow> 1 / 2 ^ 149 | Double \<Rightarrow> 1 / 2 ^ 1074)"

definition exp_Dtype :: "Dtype \<Rightarrow> real \<Rightarrow> real" where
  "exp_Dtype dtype x = (if exp x < Dtype_denorm_min dtype / 2 then 0 else exp x)"

subsection \<open>The kernels\<close>

definition kernel_channel_max ::
  "nat \<Rightarrow> nat \<Rightarrow> nat \<Rightarrow> dev_ptr \<Rightarrow> dev_ptr \<Rightarrow> memory \<Rightarrow> memory" where
  "kernel_channel_max num channels spatial_dim data out =
     CUDA_KERNEL_LOOP (num * spatial_dim) (\<lambda>index m.
       let n = index div spatial_dim;
           s = index mod spatial_dim;
           maxval = fold (\<lambda>c maxval. max (m data ((n * channels + c) * spatial_dim + s)) maxval)
                      [0..<channels] (- FLT_MAX)
       in store m out index maxval)"

definition kernel_channel_subtract ::
  "nat \<Rightarrow> nat \<Rightarrow> nat \<Rightarrow> nat \<Rightarrow> dev_ptr \<Rightarrow> dev_ptr \<Rightarrow> memory \<Rightarrow> memory" where
  "kernel_channel_subtract count num channels spatial_dim channel_max data =
     CUDA_KERNEL_LOOP count (\<lambda>index m.
       let n = index div channels div spatial_dim;
           s = index mod spatial_dim
       in store m data index (m data index - m channel_max (n * spatial_dim + s)))"

definition kernel_exp :: "Dtype \<Rightarrow> nat \<Rightarrow> dev_ptr \<Rightarrow> dev_ptr \<Rightarrow> memory \<Rightarrow> memory" where
  "kernel_exp dtype count data out =
     CUDA_KERNEL_LOOP count (\<lambda>index m. store m out index (exp_Dtype dtype (m data index)))"

definition kernel_channel_sum ::
  "nat \<Rightarrow> nat \<Rightarrow> nat \<Rightarrow> dev_ptr \<Rightarrow> dev_ptr \<Rightarrow> memory \<Rightarrow> memory" where
  "kernel_channel_sum num channels spatial_dim data channel_sum =
     CUDA_KERNEL_LOOP (num * spatial_dim) (\<lambda>index m.
       let n = index div spatial_dim;
           s = index mod spatial_dim;
           sum = fold (\<lambda>c sum. sum + m data ((n * channels + c) * spatial_dim + s))
                   [0..<channels] 0
       in store m channel_sum index sum)"

definition kernel_channel_div ::
  "nat \<Rightarrow> nat \<Rightarrow> nat \<Rightarrow> nat \<Rightarrow> dev_ptr \<Rightarrow> dev_ptr \<Rightarrow> memory \<Rightarrow> memory" where
  "kernel_channel_div count num channels spatial_dim channel_sum data =
     CUDA_KERNEL_LOOP count (\<lambda>index m.
       let n = index div channels div spatial_dim;
           s = index mod spatial_dim
       in store m data index (m data index / m channel_sum (n * spatial_dim + s)))"

definition kernel_channel_dot ::
  "nat \<Rightarrow> nat \<Rightarrow> nat \<Rightarrow> dev_ptr \<Rightarrow> dev_ptr \<Rightarrow> dev_ptr \<Rightarrow> memory \<Rightarrow> memory" where
  "kernel_channel_dot num channels spatial_dim data_1 data_2 channel_dot =
     CUDA_KERNEL_LOOP (num * spatial_dim) (\<lambda>index m.
       let n = index div spatial_dim;
           s = index mod spatial_dim;
           dot = fold (\<lambda>c dot. dot + m data_1 ((n * channels + c) * spatial_dim + s)
                                     * m data_2 ((n * channels + c) * spatial_dim + s))
                   [0..<channels] 0
       in store m channel_dot index dot)"

subsection \<open>Forward and backward pass\<close>

datatype Backend = BACKEND_CUDA | BACKEND_OpenCL

text \<open>
  Modelled from the spec: the second branch of \<open>Forward_gpu\<close> (compiled with
  \<open>USE_GREENTEA\<close>) enqueues \<open>greentea_copy\<close> and the kernels that the device program holds
  under the names \<open>kernel_channel_max\<close>, \<open>kernel_channel_subtract\<close>, \<open>kernel_exp\<close>,
  \<open>kernel_channel_sum\<close> and \<open>kernel_channel_div\<close>.  Their bodies are outside this file;
  they are the same algorithm compiled for the other execution substrate.
\<close>

definition greentea_copy :: "nat \<Rightarrow> dev_ptr \<Rightarrow> dev_ptr \<Rightarrow> memory \<Rightarrow> memory" where
  "greentea_copy N X Y m = caffe_copy N X Y m"

definition oclk_channel_max ::
  "nat \<Rightarrow> nat \<Rightarrow> nat \<Rightarrow> dev_ptr \<Rightarrow> dev_ptr \<Rightarrow> memory \<Rightarrow> memory" where
  "oclk_channel_max num channels spatial_dim data out m =
     kernel_channel_max num channels spatial_dim data out m"

definition oclk_channel_subtract ::
  "nat \<Rightarrow> nat \<Rightarrow> nat \<Rightarrow> nat \<Rightarrow> dev_ptr \<Rightarrow> dev_ptr \<Rightarrow> memory \<Rightarrow> memory" where
  "oclk_channel_subtract count num channels spatial_dim channel_max data m =
     kernel_channel_subtract count num channels spatial_dim channel_max data m"

definition oclk_exp :: "Dtype \<Rightarrow> nat \<Rightarrow> dev_ptr \<Rightarrow> dev_ptr \<Rightarrow> memory \<Rightarrow> memory" where
  "oclk_exp dtype count data out m = kernel_exp dtype count data out m"

definition oclk_channel_sum ::
  "nat \<Rightarrow> nat \<Rightarrow> nat \<Rightarrow> dev_ptr \<Rightarrow> dev_ptr \<Rightarrow> memory \<Rightarrow> memory" where
  "oclk_channel_sum num channels spatial_dim data channel_sum m =
     kernel_channel_sum num channels spatial_dim data channel_sum m"

definition oclk_channel_div ::
  "nat \<Rightarrow> nat \<Rightarrow> nat \<Rightarrow> nat \<Rightarrow> dev_ptr \<Rightarrow> dev_ptr \<Rightarrow> memory \<Rightarrow> memory" where
  "oclk_channel_div count num channels spatial_dim channel_sum data m =
     kernel_channel_div count num channels spatial_dim channel_sum data m"

definition Forward_gpu ::
  "Dtype \<Rightarrow> Backend \<Rightarrow> Blob list \<Rightarrow> Blob list \<Rightarrow> memory \<Rightarrow> memory" where
  "Forward_gpu dtype backend bottom top_vec m =
     (if backend = BACKEND_CUDA then
        let bottom_data = gpu_data (bottom ! 0);
            top_data = gpu_data (top_vec ! 0);
            scale_data = Scale_data;
            count = blob_count (bottom ! 0);
            num = blob_num (bottom ! 0);
            channels = blob_channels (bottom ! 0);
            spatial_dim = blob_height (bottom ! 0) * blob_width (bottom ! 0);
            m = caffe_copy count bottom_data top_data m;
            m = kernel_channel_max num channels spatial_dim top_data scale_data m;
            m = kernel_channel_subtract count num channels spatial_dim scale_data top_data m;
            m = kernel_exp dtype (num * channels * spatial_dim) top_data top_data m;
            m = kernel_channel_sum num channels spatial_dim top_data scale_data m;
            m = kernel_channel_div count num channels spatial_dim scale_data top_data m
        in m
      else
        let bottom_data = gpu_data (bottom ! 0);
            top_data = gpu_data (top_vec ! 0);
            scale_data = Scale_data;
            count = blob_count (bottom ! 0);
            num = blob_num (bottom ! 0);
            channels = blob_channels (bottom ! 0);
            spatial_dim = blob_height (bottom ! 0) * blob_width (bottom ! 0);
            m = greentea_copy count bottom_data top_data m;
            m = oclk_channel_max num channels spatial_dim top_data scale_data m;
            m = oclk_channel_subtract count num channels spatial_dim scale_data top_data m;
            m = oclk_exp dtype (num * channels * spatial_dim) top_data top_data m;
            m = oclk_channel_sum num channels spatial_dim top_data scale_data m;
            m = oclk_channel_div count num channels spatial_dim scale_data top_data m
        in m)"

definition Backward_gpu :: "Blob list \<Rightarrow> bool list \<Rightarrow> Blob list \<Rightarrow> memory \<Rightarrow> memory" where
  "Backward_gpu top_vec propagate_down bottom m =
     (let top_diff = gpu_diff (top_vec ! 0);
          top_data = gpu_data (top_vec ! 0);
          bottom_diff = gpu_diff (bottom ! 0);
          scale_data = Scale_data;
          count = blob_count (top_vec ! 0);
          num = blob_num (top_vec ! 0);
          channels = blob_channels (top_vec ! 0);
          spatial_dim = blob_height (top_vec ! 0) * blob_width (top_vec ! 0);
          m = caffe_copy (blob_count (top_vec ! 0)) top_diff bottom_diff m;
          m = kernel_channel_dot num channels spatial_dim top_diff top_data scale_data m;
          m = kernel_channel_subtract count num channels spatial_dim scale_data bottom_diff m;
          m = caffe_gpu_mul (blob_count (top_vec ! 0)) bottom_diff top_data bottom_diff m
      in m)"

subsection \<open>Layout and intermediate states\<close>

text \<open>
  The linear index of element \<open>(n, c, s)\<close> of a tensor with \<open>channels\<close> channels and
  \<open>spatial_dim\<close> spatial positions, as every reduction kernel forms it.
\<close>

definition offset :: "nat \<Rightarrow> nat \<Rightarrow> nat \<Rightarrow> nat \<Rightarrow> nat \<Rightarrow> nat" where
  "offset channels spatial_dim n c s = (n * channels + c) * spatial_dim + s"

text \<open>
  The device memory of the forward pass right after its subtract stage (copy, max,
  subtract) and right after its sum stage (copy, max, subtract, exp, sum): the prefixes of
  the launch sequence of \<open>Forward_gpu\<close>.
\<close>

definition Forward_subtracted :: "Blob list \<Rightarrow> Blob list \<Rightarrow> memory \<Rightarrow> memory" where
  "Forward_subtracted bottom top_vec m =
     (let bottom_data = gpu_data (bottom ! 0);
          top_data = gpu_data (top_vec ! 0);
          scale_data = Scale_data;
          count = blob_count (bottom ! 0);
          num = blob_num (bottom ! 0);
          channels = blob_channels (bottom ! 0);
          spatial_dim = blob_height (bottom ! 0) * blob_width (bottom ! 0);
          m = caffe_copy count bottom_data top_data m;
          m = kernel_channel_max num channels spatial_dim top_data scale_data m;
          m = kernel_channel_subtract count num channels spatial_dim scale_data top_data m
      in m)"

definition Forward_summed :: "Dtype \<Rightarrow> Blob list \<Rightarrow> Blob list \<Rightarrow> memory \<Rightarrow> memory" where
  "Forward_summed dtype bottom top_vec m =
     (let top_data = gpu_data (top_vec ! 0);
          scale_data = Scale_data;
          num = blob_num (bottom ! 0);
          channels = blob_channels (bottom ! 0);
          spatial_dim = blob_height (bottom ! 0) * blob_width (bottom ! 0);
          m = Forward_subtracted bottom top_vec m;
          m = kernel_exp dtype (num * channels * spatial_dim) top_data top_data m;
          m = kernel_channel_sum num channels spatial_dim top_data scale_data m
      in m)"

text \<open>
  The quantities of the specification: the maximum of a group \<open>(n, s)\<close> over its
  channels, the inner product of two tensors over the channels of a group, and the
  stabilised quotient of exponentials, with the exponential of the element type.
\<close>

definition group_max :: "(nat \<Rightarrow> real) \<Rightarrow> nat \<Rightarrow> nat \<Rightarrow> nat \<Rightarrow> nat \<Rightarrow> real" where
  "group_max x channels spatial_dim n s =
     Max ((\<lambda>c. x (offset channels spatial_dim n c s)) ` {..<channels})"

definition group_dot :: "(nat \<Rightarrow> real) \<Rightarrow> (nat \<Rightarrow> real) \<Rightarrow> nat \<Rightarrow> nat \<Rightarrow> nat \<Rightarrow> nat \<Rightarrow> real" where
  "group_dot x y channels spatial_dim n s =
     (\<Sum>c<channels. x (offset channels spatial_dim n c s) * y (offset channels spatial_dim n c s))"

definition softmax_spec ::
  "Dtype \<Rightarrow> (nat \<Rightarrow> real) \<Rightarrow> nat \<Rightarrow> nat \<Rightarrow> nat \<Rightarrow> nat \<Rightarrow> nat \<Rightarrow> real" where
  "softmax_spec dtype x channels spatial_dim n c s =
     exp_Dtype dtype (x (offset channels spatial_dim n c s)
                      - group_max x channels spatial_dim n s) /
     (\<Sum>c'<channels. exp_Dtype dtype (x (offset channels spatial_dim n c' s)
                                        - group_max x channels spatial_dim n s))"

subsection \<open>Concrete inputs\<close>

text \<open>
  Two blobs of shape \<open>1 \<times> 2 \<times> 1 \<times> 1\<close> and a device memory: every data buffer holds
  \<open>[0, ln 3]\<close>, every diff buffer \<open>[1, 2]\<close>; \<open>shifted_memory\<close> adds \<open>5\<close> to every element.
\<close>

definition blob_in :: Blob where
  "blob_in = \<lparr>blob_id = 0, blob_num = 1, blob_channels = 2, blob_height = 1, blob_width = 1\<rparr>"

definition blob_out :: Blob where
  "blob_out = \<lparr>blob_id = 1, blob_num = 1, blob_channels = 2, blob_height = 1, blob_width = 1\<rparr>"

definition example_memory :: memory where
  "example_memory p i =
     (case p of
        Gpu_data k \<Rightarrow> if i = 0 then 0 else ln 3
      | Gpu_diff k \<Rightarrow> if i = 0 then 1 else 2
      | Scale_data \<Rightarrow> 0)"

definition shifted_memory :: memory where
  "shifted_memory p i = example_memory p i + 5"


definition blob_one :: Blob where
  "blob_one = \<lparr>blob_id = 0, blob_num = 1, blob_channels = 1, blob_height = 1, blob_width = 1\<rparr>"

definition blob_one_out :: Blob where
  "blob_one_out = \<lparr>blob_id = 1, blob_num = 1, blob_channels = 1, blob_height = 1, blob_width = 1\<rparr>"

definition zero_memory :: memory where
  "zero_memory p i = 0"

text \<open>A device memory whose every buffer holds \<open>0, 1, 2, \<dots>\<close>.\<close>

definition index_memory :: memory where
  "index_memory p i = real i"

text \<open>
  \<open>DBL_MAX\<close> of \<open><cfloat>\<close>, the largest finite value of the double-precision type, and
  a device memory whose every element is \<open>- 2\<^sup>2\<^sup>0\<^sup>0\<close>: a finite value of type \<open>double\<close>
  below the range of \<open>float\<close>.
\<close>

definition DBL_MAX :: real where
  "DBL_MAX = (2 ^ 53 - 1) * 2 ^ 971"

definition low_memory :: memory where
  "low_memory p i = - (2 ^ 200)"

subsection \<open>Loops that store one element per index\<close>

lemma CUDA_KERNEL_LOOP_store:
  assumes body: "\<And>i m'. body i m' = store m' out i (g i m')"
    and stable: "\<And>i m'. i < n \<Longrightarrow> (\<forall>p. p \<noteq> out \<longrightarrow> m' p = m p) \<Longrightarrow>
                   (\<forall>j. i \<le> j \<longrightarrow> m' out j = m out j) \<Longrightarrow> g i m' = g i m"
  shows "CUDA_KERNEL_LOOP n body m = m(out := (\<lambda>j. if j < n then g j m else m out j))"
  using stable
proof (induction n)
  case 0
  show ?case by (simp add: CUDA_KERNEL_LOOP_def)
next
  case (Suc n)
  let ?M = "m(out := (\<lambda>j. if j < n then g j m else m out j))"
  have IH: "CUDA_KERNEL_LOOP n body m = ?M"
  proof (rule Suc.IH)
    fix i m'
    assume "i < n" "\<forall>p. p \<noteq> out \<longrightarrow> m' p = m p" "\<forall>j. i \<le> j \<longrightarrow> m' out j = m out j"
    then show "g i m' = g i m"
      using Suc.prems [of i m'] by simp
  qed
  have g: "g n ?M = g n m"
  proof (rule Suc.prems)
    show "n < Suc n" by simp
    show "\<forall>p. p \<noteq> out \<longrightarrow> ?M p = m p" by simp
    show "\<forall>j. n \<le> j \<longrightarrow> ?M out j = m out j" by simp
  qed
  have "CUDA_KERNEL_LOOP (Suc n) body m = body n (CUDA_KERNEL_LOOP n body m)"
    by (simp add: CUDA_KERNEL_LOOP_def)
  also have "\<dots> = store ?M out n (g n m)"
    unfolding IH body g ..
  also have "\<dots> = m(out := (\<lambda>j. if j < Suc n then g j m else m out j))"
    by (auto simp: store_def fun_eq_iff)
  finally show ?case .
qed

lemma fold_max_upt:
  fixes f :: "nat \<Rightarrow> real"
  shows "fold (\<lambda>c maxval. max (f c) maxval) [0..<n] a =
         (if n = 0 then a else max a (Max (f ` {..<n})))"
proof (induction n)
  case 0
  show ?case by simp
next
  case (Suc n)
  show ?case
  proof (cases "n = 0")
    case True
    then show ?thesis by (simp add: max.commute lessThan_Suc)
  next
    case False
    then have ne: "f ` {..<n} \<noteq> {}" by auto
    have "Max (f ` {..<Suc n}) = max (f n) (Max (f ` {..<n}))"
      using ne by (simp add: lessThan_Suc)
    then show ?thesis using Suc False by (simp add: max.left_commute)
  qed
qed

lemma fold_add_upt:
  fixes f :: "nat \<Rightarrow> real"
  shows "fold (\<lambda>c acc. acc + f c) [0..<n] a = a + (\<Sum>c<n. f c)"
  by (induction n) simp_all

lemma kernel_channel_max_eq:
  assumes "data \<noteq> out"
  shows "kernel_channel_max num channels spatial_dim data out m =
         m(out := (\<lambda>j. if j < num * spatial_dim
                        then fold (\<lambda>c maxval. max (m data ((j div spatial_dim * channels + c) * spatial_dim + j mod spatial_dim)) maxval)
                               [0..<channels] (- FLT_MAX)
                        else m out j))"
  unfolding kernel_channel_max_def Let_def
  by (rule CUDA_KERNEL_LOOP_store) (simp_all add: assms)

lemma kernel_channel_sum_eq:
  assumes "data \<noteq> channel_sum"
  shows "kernel_channel_sum num channels spatial_dim data channel_sum m =
         m(channel_sum := (\<lambda>j. if j < num * spatial_dim
                        then fold (\<lambda>c sum. sum + m data ((j div spatial_dim * channels + c) * spatial_dim + j mod spatial_dim))
                               [0..<channels] 0
                        else m channel_sum j))"
  unfolding kernel_channel_sum_def Let_def
  by (rule CUDA_KERNEL_LOOP_store) (simp_all add: assms)

lemma kernel_channel_dot_eq:
  assumes "data_1 \<noteq> channel_dot" "data_2 \<noteq> channel_dot"
  shows "kernel_channel_dot num channels spatial_dim data_1 data_2 channel_dot m =
         m(channel_dot := (\<lambda>j. if j < num * spatial_dim
                        then fold (\<lambda>c dot. dot + m data_1 ((j div spatial_dim * channels + c) * spatial_dim + j mod spatial_dim)
                                               * m data_2 ((j div spatial_dim * channels + c) * spatial_dim + j mod spatial_dim))
                               [0..<channels] 0
                        else m channel_dot j))"
  unfolding kernel_channel_dot_def Let_def
  by (rule CUDA_KERNEL_LOOP_store) (simp_all add: assms)

lemma kernel_channel_subtract_eq:
  assumes "channel_max \<noteq> data"
  shows "kernel_channel_subtract count num channels spatial_dim channel_max data m =
         m(data := (\<lambda>i. if i < count
                         then m data i - m channel_max (i div channels div spatial_dim * spatial_dim + i mod spatial_dim)
                         else m data i))"
  unfolding kernel_channel_subtract_def Let_def
  by (rule CUDA_KERNEL_LOOP_store) (simp_all add: assms)

lemma kernel_channel_div_eq:
  assumes "channel_sum \<noteq> data"
  shows "kernel_channel_div count num channels spatial_dim channel_sum data m =
         m(data := (\<lambda>i. if i < count
                         then m data i / m channel_sum (i div channels div spatial_dim * spatial_dim + i mod spatial_dim)
                         else m data i))"
  unfolding kernel_channel_div_def Let_def
  by (rule CUDA_KERNEL_LOOP_store) (simp_all add: assms)

lemma kernel_exp_eq:
  "kernel_exp dtype count data out m =
     m(out := (\<lambda>i. if i < count then exp_Dtype dtype (m data i) else m out i))"
  unfolding kernel_exp_def
  by (rule CUDA_KERNEL_LOOP_store) (cases "data = out"; simp)+

subsection \<open>The exponential of the element type\<close>

lemma Dtype_denorm_min_bounds:
  "1 / 2 ^ 1074 \<le> Dtype_denorm_min dtype" "Dtype_denorm_min dtype \<le> 1 / 2 ^ 149"
  by (cases dtype; simp add: Dtype_denorm_min_def)+

lemma exp_Dtype_zero: "exp_Dtype dtype 0 = 1"
  using Dtype_denorm_min_bounds(2) [of dtype] by (simp add: exp_Dtype_def)


lemma exp_Dtype_le_one: "x \<le> 0 \<Longrightarrow> exp_Dtype dtype x \<le> 1"
  by (simp add: exp_Dtype_def)

lemma exp_Dtype_exact:
  assumes "1 / 2 ^ 150 \<le> exp x"
  shows "exp_Dtype dtype x = exp x"
proof -
  have "Dtype_denorm_min dtype / 2 \<le> 1 / 2 ^ 150"
    using Dtype_denorm_min_bounds(2) [of dtype] by simp
  then show ?thesis using assms by (simp add: exp_Dtype_def)
qed

lemma exp_1000_lower: "2 ^ 1076 < exp (1000::real)"
proof -
  have "(5 / 2 :: real) \<le> exp 1"
    using exp_lower_Taylor_quadratic [of "1::real"] by simp
  then have "(5 / 2 :: real) ^ 1000 \<le> exp 1 ^ 1000"
    by (intro power_mono) simp_all
  also have "exp (1::real) ^ 1000 = exp 1000"
    using exp_of_nat_mult [of 1000 "1::real"] by simp
  finally have 1: "(5 / 2 :: real) ^ 1000 \<le> exp 1000" .
  have "(2::real) ^ 5 < (5 / 2) ^ 4" by (simp add: power_divide)
  then have "((2::real) ^ 5) ^ 250 < ((5 / 2) ^ 4) ^ 250"
    by (intro power_strict_mono) simp_all
  then have "(2::real) ^ 1250 < (5 / 2) ^ 1000"
    by (simp only: power_mult [symmetric]) simp
  moreover have "(2::real) ^ 1076 \<le> 2 ^ 1250"
    by (intro power_increasing) simp_all
  ultimately show ?thesis using 1 by linarith
qed

lemma exp_Dtype_underflow:
  assumes "x \<le> - 1000"
  shows "exp_Dtype dtype x = 0"
proof -
  have "exp x \<le> exp (- 1000)" using assms by simp
  also have "\<dots> = 1 / exp 1000" by (simp add: exp_minus divide_inverse)
  also have "\<dots> < 1 / 2 ^ 1076"
    using exp_1000_lower by (intro divide_strict_left_mono) simp_all
  also have "\<dots> \<le> Dtype_denorm_min dtype / 2"
    using Dtype_denorm_min_bounds(1) [of dtype] by simp
  finally show ?thesis by (simp add: exp_Dtype_def)
qed

subsection \<open>Index arithmetic\<close>

lemma offset_less:
  assumes "n < num" "c < channels" "s < spatial_dim"
  shows "offset channels spatial_dim n c s < num * channels * spatial_dim"
proof -
  have "n * channels + c < Suc n * channels" using assms by simp
  also have "\<dots> \<le> num * channels" using assms by (intro mult_le_mono1) simp
  finally have "n * channels + c + 1 \<le> num * channels" by simp
  then have "(n * channels + c + 1) * spatial_dim \<le> num * channels * spatial_dim"
    by (rule mult_le_mono1)
  then show ?thesis using assms by (simp add: offset_def)
qed

lemma offset_div:
  assumes "c < channels" "s < spatial_dim"
  shows "offset channels spatial_dim n c s div channels div spatial_dim = n"
proof -
  have "offset channels spatial_dim n c s = s + spatial_dim * (c + channels * n)"
    by (simp add: offset_def algebra_simps)
  then have "offset channels spatial_dim n c s div spatial_dim = c + channels * n"
    using assms by simp
  then have "offset channels spatial_dim n c s div spatial_dim div channels = n"
    using assms by simp
  then show ?thesis by (simp add: div_mult2_eq [symmetric] mult.commute)
qed

lemma offset_mod:
  assumes "s < spatial_dim"
  shows "offset channels spatial_dim n c s mod spatial_dim = s"
  using assms by (simp add: offset_def)

lemma group_less:
  assumes "n < num" "s < spatial_dim"
  shows "n * spatial_dim + s < num * (spatial_dim::nat)"
proof -
  have "n * spatial_dim + s < Suc n * spatial_dim" using assms by simp
  also have "\<dots> \<le> num * spatial_dim" using assms by (intro mult_le_mono1) simp
  finally show ?thesis .
qed

lemma group_div: "s < spatial_dim \<Longrightarrow> (n * spatial_dim + s) div spatial_dim = (n::nat)"
  by simp

lemma group_mod: "s < spatial_dim \<Longrightarrow> (n * spatial_dim + s) mod spatial_dim = (s::nat)"
  by simp

subsection \<open>What each kernel leaves in memory\<close>

lemma kernel_channel_max_group:
  assumes "data \<noteq> out" "n < num" "s < spatial_dim"
  shows "kernel_channel_max num channels spatial_dim data out m out (n * spatial_dim + s) =
         (if channels = 0 then - FLT_MAX
          else max (- FLT_MAX) (Max ((\<lambda>c. m data (offset channels spatial_dim n c s)) ` {..<channels})))"
  using assms
  by (simp add: kernel_channel_max_eq group_less fold_max_upt offset_def)

lemma kernel_channel_max_frame:
  assumes "data \<noteq> out" "p \<noteq> out"
  shows "kernel_channel_max num channels spatial_dim data out m p = m p"
  using assms by (simp add: kernel_channel_max_eq)

lemma kernel_channel_sum_group:
  assumes "data \<noteq> channel_sum" "n < num" "s < spatial_dim"
  shows "kernel_channel_sum num channels spatial_dim data channel_sum m channel_sum (n * spatial_dim + s) =
         (\<Sum>c<channels. m data (offset channels spatial_dim n c s))"
  using assms
  by (simp add: kernel_channel_sum_eq group_less fold_add_upt offset_def)

lemma kernel_channel_sum_frame:
  assumes "data \<noteq> channel_sum" "p \<noteq> channel_sum"
  shows "kernel_channel_sum num channels spatial_dim data channel_sum m p = m p"
  using assms by (simp add: kernel_channel_sum_eq)

lemma kernel_channel_dot_group:
  assumes "data_1 \<noteq> channel_dot" "data_2 \<noteq> channel_dot" "n < num" "s < spatial_dim"
  shows "kernel_channel_dot num channels spatial_dim data_1 data_2 channel_dot m channel_dot
           (n * spatial_dim + s) =
         (\<Sum>c<channels. m data_1 (offset channels spatial_dim n c s)
                         * m data_2 (offset channels spatial_dim n c s))"
  using assms
  by (simp add: kernel_channel_dot_eq group_less fold_add_upt offset_def)

lemma kernel_channel_dot_frame:
  assumes "data_1 \<noteq> channel_dot" "data_2 \<noteq> channel_dot" "p \<noteq> channel_dot"
  shows "kernel_channel_dot num channels spatial_dim data_1 data_2 channel_dot m p = m p"
  using assms by (simp add: kernel_channel_dot_eq)

lemma kernel_channel_subtract_elem:
  assumes "channel_max \<noteq> data" "c < channels" "s < spatial_dim"
    and "offset channels spatial_dim n c s < count"
  shows "kernel_channel_subtract count num channels spatial_dim channel_max data m data
           (offset channels spatial_dim n c s) =
         m data (offset channels spatial_dim n c s) - m channel_max (n * spatial_dim + s)"
  using assms by (simp add: kernel_channel_subtract_eq offset_div offset_mod)

lemma kernel_channel_subtract_frame:
  assumes "channel_max \<noteq> data" "p \<noteq> data"
  shows "kernel_channel_subtract count num channels spatial_dim channel_max data m p = m p"
  using assms by (simp add: kernel_channel_subtract_eq)

lemma kernel_channel_div_elem:
  assumes "channel_sum \<noteq> data" "c < channels" "s < spatial_dim"
    and "offset channels spatial_dim n c s < count"
  shows "kernel_channel_div count num channels spatial_dim channel_sum data m data
           (offset channels spatial_dim n c s) =
         m data (offset channels spatial_dim n c s) / m channel_sum (n * spatial_dim + s)"
  using assms by (simp add: kernel_channel_div_eq offset_div offset_mod)

lemma kernel_channel_div_frame:
  assumes "channel_sum \<noteq> data" "p \<noteq> data"
  shows "kernel_channel_div count num channels spatial_dim channel_sum data m p = m p"
  using assms by (simp add: kernel_channel_div_eq)

lemma kernel_exp_elem:
  "i < count \<Longrightarrow> kernel_exp dtype count data out m out i = exp_Dtype dtype (m data i)"
  by (simp add: kernel_exp_eq)

lemma kernel_exp_frame:
  "p \<noteq> out \<Longrightarrow> kernel_exp dtype count data out m p = m p"
  by (simp add: kernel_exp_eq)

lemma caffe_copy_elem: "i < N \<Longrightarrow> caffe_copy N X Y m Y i = m X i"
  by (simp add: caffe_copy_def)

lemma caffe_copy_frame: "p \<noteq> Y \<Longrightarrow> caffe_copy N X Y m p = m p"
  by (simp add: caffe_copy_def)

lemma caffe_gpu_mul_elem: "i < N \<Longrightarrow> caffe_gpu_mul N a b y m y i = m a i * m b i"
  by (simp add: caffe_gpu_mul_def)

lemma caffe_gpu_mul_frame: "p \<noteq> y \<Longrightarrow> caffe_gpu_mul N a b y m p = m p"
  by (simp add: caffe_gpu_mul_def)

subsection \<open>The forward pipeline, stage by stage\<close>

lemma blob_count_eq:
  "blob_count b = blob_num b * blob_channels b * (blob_height b * blob_width b)"
  by (simp add: blob_count_def mult.assoc)

lemma Forward_gpu_unfold:
  "Forward_gpu dtype backend bottom top_vec m =
     kernel_channel_div (blob_count (bottom ! 0)) (blob_num (bottom ! 0))
       (blob_channels (bottom ! 0)) (blob_height (bottom ! 0) * blob_width (bottom ! 0))
       Scale_data (gpu_data (top_vec ! 0)) (Forward_summed dtype bottom top_vec m)"
  by (simp add: Forward_gpu_def Forward_summed_def Forward_subtracted_def Let_def
      greentea_copy_def oclk_channel_max_def oclk_channel_subtract_def oclk_exp_def
      oclk_channel_sum_def oclk_channel_div_def)

lemma Forward_subtracted_elem:
  assumes "n < blob_num b" "c < blob_channels b" "s < blob_height b * blob_width b"
  shows "Forward_subtracted (b # bs) (t # ts) m (gpu_data t)
           (offset (blob_channels b) (blob_height b * blob_width b) n c s) =
         m (gpu_data b) (offset (blob_channels b) (blob_height b * blob_width b) n c s)
         - max (- FLT_MAX) (group_max (m (gpu_data b)) (blob_channels b)
                              (blob_height b * blob_width b) n s)"
proof -
  let ?C = "blob_channels b" and ?S = "blob_height b * blob_width b" and ?N = "blob_num b"
  let ?T = "gpu_data t"
  define m1 where "m1 = caffe_copy (blob_count b) (gpu_data b) ?T m"
  define m2 where "m2 = kernel_channel_max ?N ?C ?S ?T Scale_data m1"
  have ne: "?T \<noteq> Scale_data" "Scale_data \<noteq> ?T" by (simp_all add: gpu_data_def)
  have lt: "offset ?C ?S n c' s < blob_count b" if "c' < ?C" for c'
    using offset_less [OF assms(1) that assms(3)] by (simp add: blob_count_eq)
  have m1: "m1 ?T (offset ?C ?S n c' s) = m (gpu_data b) (offset ?C ?S n c' s)" if "c' < ?C" for c'
    unfolding m1_def by (rule caffe_copy_elem) (rule lt [OF that])
  have "(\<lambda>c. m1 ?T (offset ?C ?S n c s)) ` {..<?C} = (\<lambda>c. m (gpu_data b) (offset ?C ?S n c s)) ` {..<?C}"
    by (rule image_cong) (simp_all add: m1)
  then have m2s: "m2 Scale_data (n * ?S + s) = max (- FLT_MAX) (group_max (m (gpu_data b)) ?C ?S n s)"
    unfolding m2_def using assms
    by (simp add: kernel_channel_max_group [OF ne(1)] group_max_def)
  have m2t: "m2 ?T = m1 ?T"
    unfolding m2_def by (rule kernel_channel_max_frame) (rule ne)+
  have "Forward_subtracted (b # bs) (t # ts) m = kernel_channel_subtract (blob_count b) ?N ?C ?S Scale_data ?T m2"
    by (simp add: Forward_subtracted_def m1_def m2_def Let_def)
  then show ?thesis
    using assms by (simp add: kernel_channel_subtract_elem [OF ne(2)] lt m2s m2t m1)
qed

lemma Forward_subtracted_frame:
  assumes "p \<noteq> gpu_data t" "p \<noteq> Scale_data"
  shows "Forward_subtracted bs (t # ts) m p = m p"
  using assms 
  by (simp add: Forward_subtracted_def Let_def kernel_channel_subtract_frame kernel_channel_max_frame caffe_copy_frame gpu_data_def)

lemma Forward_summed_elem:
  assumes "n < blob_num b" "c < blob_channels b" "s < blob_height b * blob_width b"
  shows "Forward_summed dtype (b # bs) (t # ts) m (gpu_data t)
           (offset (blob_channels b) (blob_height b * blob_width b) n c s) =
         exp_Dtype dtype (m (gpu_data b) (offset (blob_channels b) (blob_height b * blob_width b) n c s)
              - max (- FLT_MAX) (group_max (m (gpu_data b)) (blob_channels b)
                                   (blob_height b * blob_width b) n s))"
proof -
  let ?C = "blob_channels b" and ?S = "blob_height b * blob_width b" and ?N = "blob_num b"
  let ?T = "gpu_data t"
  have ne: "?T \<noteq> Scale_data" by (simp add: gpu_data_def)
  have lt: "offset ?C ?S n c s < ?N * ?C * ?S"
    by (rule offset_less) (rule assms)+
  show ?thesis
    using lt by (simp add: Forward_summed_def Let_def kernel_channel_sum_frame [OF ne ne]
        kernel_exp_elem Forward_subtracted_elem [OF assms])
qed

lemma Forward_summed_group:
  assumes "n < blob_num b" "s < blob_height b * blob_width b"
  shows "Forward_summed dtype (b # bs) (t # ts) m Scale_data (n * (blob_height b * blob_width b) + s) =
         (\<Sum>c<blob_channels b.
            exp_Dtype dtype (m (gpu_data b) (offset (blob_channels b) (blob_height b * blob_width b) n c s)
                 - max (- FLT_MAX) (group_max (m (gpu_data b)) (blob_channels b)
                                      (blob_height b * blob_width b) n s)))"
proof -
  let ?C = "blob_channels b" and ?S = "blob_height b * blob_width b" and ?N = "blob_num b"
  let ?T = "gpu_data t"
  define m3 where "m3 = Forward_subtracted (b # bs) (t # ts) m"
  define m4 where "m4 = kernel_exp dtype (?N * ?C * ?S) ?T ?T m3"
  have ne: "?T \<noteq> Scale_data" by (simp add: gpu_data_def)
  have m4: "m4 ?T (offset ?C ?S n c s) =
            exp_Dtype dtype (m (gpu_data b) (offset ?C ?S n c s)
                 - max (- FLT_MAX) (group_max (m (gpu_data b)) ?C ?S n s))" if "c < ?C" for c
  proof -
    have "offset ?C ?S n c s < ?N * ?C * ?S"
      by (rule offset_less) (rule assms that)+
    then show ?thesis
      unfolding m4_def m3_def
      by (simp add: kernel_exp_elem Forward_subtracted_elem [OF assms(1) that assms(2)])
  qed
  have "Forward_summed dtype (b # bs) (t # ts) m = kernel_channel_sum ?N ?C ?S ?T Scale_data m4"
    by (simp add: Forward_summed_def m3_def m4_def Let_def)
  then show ?thesis
    using assms by (simp add: kernel_channel_sum_group [OF ne] m4)
qed

lemma Forward_gpu_elem:
  assumes "n < blob_num b" "c < blob_channels b" "s < blob_height b * blob_width b"
  shows "Forward_gpu dtype backend (b # bs) (t # ts) m (gpu_data t)
           (offset (blob_channels b) (blob_height b * blob_width b) n c s) =
         exp_Dtype dtype (m (gpu_data b) (offset (blob_channels b) (blob_height b * blob_width b) n c s)
              - max (- FLT_MAX) (group_max (m (gpu_data b)) (blob_channels b)
                                   (blob_height b * blob_width b) n s)) /
         (\<Sum>c'<blob_channels b.
            exp_Dtype dtype (m (gpu_data b) (offset (blob_channels b) (blob_height b * blob_width b) n c' s)
                 - max (- FLT_MAX) (group_max (m (gpu_data b)) (blob_channels b)
                                      (blob_height b * blob_width b) n s)))"
proof -
  let ?C = "blob_channels b" and ?S = "blob_height b * blob_width b" and ?N = "blob_num b"
  have ne: "Scale_data \<noteq> gpu_data t" by (simp add: gpu_data_def)
  have lt: "offset ?C ?S n c s < blob_count b"
    using offset_less [OF assms] by (simp add: blob_count_eq)
  show ?thesis
    using assms(2,3) lt
    by (simp add: Forward_gpu_unfold kernel_channel_div_elem [OF ne]
        Forward_summed_elem [OF assms] Forward_summed_group [OF assms(1,3)])
qed

lemma Forward_gpu_frame:
  assumes "p \<noteq> gpu_data t" "p \<noteq> Scale_data"
  shows "Forward_gpu dtype backend bs (t # ts) m p = m p"
  using assms
  by (simp add: Forward_gpu_unfold Forward_summed_def Let_def kernel_channel_div_frame
      kernel_channel_sum_frame kernel_exp_frame Forward_subtracted_frame gpu_data_def)

lemma offset_decompose:
  assumes "i < num * channels * spatial_dim"
  shows "i = offset channels spatial_dim (i div channels div spatial_dim)
             (i div spatial_dim mod channels) (i mod spatial_dim)
         \<and> i div channels div spatial_dim < num
         \<and> i div spatial_dim mod channels < channels
         \<and> i mod spatial_dim < spatial_dim"
proof -
  have pos: "0 < channels" "0 < spatial_dim"
    using assms by (cases "channels = 0"; cases "spatial_dim = 0"; simp)+
  have n: "i div channels div spatial_dim = i div spatial_dim div channels"
    by (simp add: div_mult2_eq [symmetric] mult.commute)
  have "i div spatial_dim = (i div spatial_dim div channels) * channels + i div spatial_dim mod channels"
    by simp
  then have "i = ((i div spatial_dim div channels) * channels + i div spatial_dim mod channels) * spatial_dim + i mod spatial_dim"
    by simp
  then have 1: "i = offset channels spatial_dim (i div channels div spatial_dim)
             (i div spatial_dim mod channels) (i mod spatial_dim)"
    unfolding offset_def n .
  have "i < num * (channels * spatial_dim)" using assms by (simp add: mult.assoc)
  then have "i div (channels * spatial_dim) < num"
    using pos by (simp add: less_mult_imp_div_less)
  then have 2: "i div channels div spatial_dim < num"
    by (simp add: div_mult2_eq)
  show ?thesis using 1 2 pos by simp
qed

lemma group_max_ge:
  assumes "c < channels"
  shows "x (offset channels spatial_dim n c s) \<le> group_max x channels spatial_dim n s"
  unfolding group_max_def using assms by (intro Max_ge) auto

lemma Forward_subtracted_le_zero:
  assumes "n < blob_num b" "c < blob_channels b" "s < blob_height b * blob_width b"
  shows "Forward_subtracted (b # bs) (t # ts) m (gpu_data t)
           (offset (blob_channels b) (blob_height b * blob_width b) n c s) \<le> 0"
  using group_max_ge [OF assms(2), of "m (gpu_data b)" "blob_height b * blob_width b" n s]
  by (simp add: Forward_subtracted_elem [OF assms])

text \<open>
  Where every channel of the group is within the range of \<open>float\<close>, the scan for the
  maximum returns the maximum of the group.
\<close>

lemma kernel_channel_max_float_range:
  assumes "data \<noteq> out" "n < num" "s < spatial_dim" "1 \<le> channels"
    and "\<And>c. c < channels \<Longrightarrow> - FLT_MAX \<le> m data (offset channels spatial_dim n c s)"
  shows "kernel_channel_max num channels spatial_dim data out m out (n * spatial_dim + s) =
         group_max (m data) channels spatial_dim n s"
proof -
  have "- FLT_MAX \<le> m data (offset channels spatial_dim n 0 s)"
    using assms(4,5) by simp
  also have "\<dots> \<le> group_max (m data) channels spatial_dim n s"
    using assms(4) by (intro group_max_ge) simp
  finally show ?thesis
    using assms(1-4) by (simp add: kernel_channel_max_group group_max_def)
qed

text \<open>
  Where every channel of the group is within the range of \<open>float\<close>, the subtract stage
  has subtracted the maximum of the group, the output is the quotient of the
  specification, and the channel that attains the maximum contributes \<open>exp 0 = 1\<close> to the
  sum of the group.
\<close>

lemma scan_max_float_range:
  assumes "c < channels"
    and range: "\<And>c'. c' < channels \<Longrightarrow> - FLT_MAX \<le> x (offset channels spatial_dim n c' s)"
  shows "max (- FLT_MAX) (group_max x channels spatial_dim n s) =
         group_max x channels spatial_dim n s"
proof -
  have "- FLT_MAX \<le> x (offset channels spatial_dim n c s)"
    by (rule range) (rule assms(1))
  also have "\<dots> \<le> group_max x channels spatial_dim n s"
    by (rule group_max_ge) (rule assms(1))
  finally show ?thesis by simp
qed

lemma Forward_gpu_softmax:
  assumes "n < blob_num b" "c < blob_channels b" "s < blob_height b * blob_width b"
    and range: "\<And>c'. c' < blob_channels b \<Longrightarrow>
      - FLT_MAX \<le> m (gpu_data b) (offset (blob_channels b) (blob_height b * blob_width b) n c' s)"
  shows "Forward_gpu dtype backend (b # bs) (t # ts) m (gpu_data t)
           (offset (blob_channels b) (blob_height b * blob_width b) n c s) =
         softmax_spec dtype (m (gpu_data b)) (blob_channels b) (blob_height b * blob_width b)
           n c s"
proof -
  have M: "max (- FLT_MAX) (group_max (m (gpu_data b)) (blob_channels b)
                              (blob_height b * blob_width b) n s) =
           group_max (m (gpu_data b)) (blob_channels b) (blob_height b * blob_width b) n s"
    by (rule scan_max_float_range [where c = c and x = "m (gpu_data b)"])
      (simp_all add: assms(2) range)
  show ?thesis
    unfolding Forward_gpu_elem [OF assms(1-3)] softmax_spec_def M ..
qed



lemma Forward_subtracted_scale:
  assumes "n < blob_num b" "s < blob_height b * blob_width b" "1 \<le> blob_channels b"
  shows "Forward_subtracted (b # bs) (t # ts) m Scale_data (n * (blob_height b * blob_width b) + s) =
         max (- FLT_MAX) (group_max (m (gpu_data b)) (blob_channels b)
                            (blob_height b * blob_width b) n s)"
proof -
  let ?C = "blob_channels b" and ?S = "blob_height b * blob_width b" and ?N = "blob_num b"
  let ?T = "gpu_data t"
  define m1 where "m1 = caffe_copy (blob_count b) (gpu_data b) ?T m"
  have ne: "?T \<noteq> Scale_data" "Scale_data \<noteq> ?T" by (simp_all add: gpu_data_def)
  have m1: "m1 ?T (offset ?C ?S n c s) = m (gpu_data b) (offset ?C ?S n c s)" if "c < ?C" for c
  proof -
    have "offset ?C ?S n c s < blob_count b"
      using offset_less [OF assms(1) that assms(2)] by (simp add: blob_count_eq)
    then show ?thesis unfolding m1_def by (rule caffe_copy_elem)
  qed
  have img: "(\<lambda>c. m1 ?T (offset ?C ?S n c s)) ` {..<?C} =
             (\<lambda>c. m (gpu_data b) (offset ?C ?S n c s)) ` {..<?C}"
    by (rule image_cong) (simp_all add: m1)
  have "Forward_subtracted (b # bs) (t # ts) m Scale_data (n * ?S + s) =
        kernel_channel_max ?N ?C ?S ?T Scale_data m1 Scale_data (n * ?S + s)"
    by (simp add: Forward_subtracted_def Let_def m1_def kernel_channel_subtract_frame [OF ne(2) ne(2)])
  also have "\<dots> = max (- FLT_MAX) (group_max (m (gpu_data b)) ?C ?S n s)"
    using assms img by (simp add: kernel_channel_max_group [OF ne(1)] group_max_def)
  finally show ?thesis .
qed

lemma Forward_gpu_quotient:
  assumes "n < blob_num b" "c < blob_channels b" "s < blob_height b * blob_width b"
  shows "Forward_gpu dtype backend (b # bs) (t # ts) m (gpu_data t)
           (offset (blob_channels b) (blob_height b * blob_width b) n c s) =
         Forward_summed dtype (b # bs) (t # ts) m (gpu_data t)
           (offset (blob_channels b) (blob_height b * blob_width b) n c s)
         / Forward_summed dtype (b # bs) (t # ts) m Scale_data
             (n * (blob_height b * blob_width b) + s)"
  unfolding Forward_gpu_elem [OF assms] Forward_summed_elem [OF assms]
    Forward_summed_group [OF assms(1,3)] ..

text \<open>
  Within the range of \<open>float\<close>, a constant added to all channels of a group leaves
  the output of the group unchanged: the maximum moves with the group.
\<close>

lemma group_max_shift:
  assumes "1 \<le> channels"
    and "\<And>c. c < channels \<Longrightarrow>
      x' (offset channels spatial_dim n c s) = x (offset channels spatial_dim n c s) + k"
  shows "group_max x' channels spatial_dim n s = group_max x channels spatial_dim n s + k"
proof -
  have "0 \<in> {..<channels}" using assms(1) by simp
  then have ne: "{..<channels} \<noteq> {}" by blast
  have "(\<lambda>c. x' (offset channels spatial_dim n c s)) ` {..<channels} =
        (\<lambda>c. x (offset channels spatial_dim n c s) + k) ` {..<channels}"
    by (rule image_cong) (simp_all add: assms(2))
  then show ?thesis
    unfolding group_max_def using ne by (simp add: Max_add_commute)
qed

lemma Forward_gpu_shift_float_range:
  assumes shift: "\<And>c. c < blob_channels b \<Longrightarrow>
      m' (gpu_data b) (offset (blob_channels b) (blob_height b * blob_width b) n c s) =
      m (gpu_data b) (offset (blob_channels b) (blob_height b * blob_width b) n c s) + k"
    and range: "\<And>c. c < blob_channels b \<Longrightarrow>
      - FLT_MAX \<le> m (gpu_data b) (offset (blob_channels b) (blob_height b * blob_width b) n c s)"
    and range': "\<And>c. c < blob_channels b \<Longrightarrow>
      - FLT_MAX \<le> m' (gpu_data b) (offset (blob_channels b) (blob_height b * blob_width b) n c s)"
    and "n < blob_num b" "c < blob_channels b" "s < blob_height b * blob_width b"
  shows "Forward_gpu dtype backend (b # bs) (t # ts) m' (gpu_data t)
           (offset (blob_channels b) (blob_height b * blob_width b) n c s) =
         Forward_gpu dtype backend (b # bs) (t # ts) m (gpu_data t)
           (offset (blob_channels b) (blob_height b * blob_width b) n c s)"
proof -
  let ?C = "blob_channels b" and ?S = "blob_height b * blob_width b"
  have C: "1 \<le> ?C" using assms(5) by simp
  have M: "group_max (m' (gpu_data b)) ?C ?S n s = group_max (m (gpu_data b)) ?C ?S n s + k"
    by (rule group_max_shift [OF C]) (rule shift)
  have d: "m' (gpu_data b) (offset ?C ?S n c' s) - group_max (m' (gpu_data b)) ?C ?S n s =
           m (gpu_data b) (offset ?C ?S n c' s) - group_max (m (gpu_data b)) ?C ?S n s"
    if "c' < ?C" for c'
    using shift [OF that] M by simp
  have "softmax_spec dtype (m' (gpu_data b)) ?C ?S n c s =
        softmax_spec dtype (m (gpu_data b)) ?C ?S n c s"
    unfolding softmax_spec_def d [OF assms(5)]
    by (rule arg_cong [where f = "\<lambda>z. _ / z"], rule sum.cong) (simp_all add: d)
  moreover have "Forward_gpu dtype backend (b # bs) (t # ts) m (gpu_data t)
      (offset ?C ?S n c s) = softmax_spec dtype (m (gpu_data b)) ?C ?S n c s"
    by (rule Forward_gpu_softmax) (simp_all add: assms(4-6) range)
  moreover have "Forward_gpu dtype backend (b # bs) (t # ts) m' (gpu_data t)
      (offset ?C ?S n c s) = softmax_spec dtype (m' (gpu_data b)) ?C ?S n c s"
    by (rule Forward_gpu_softmax) (simp_all add: assms(4-6) range')
  ultimately show ?thesis by simp
qed

subsection \<open>The backward pipeline\<close>

lemma Backward_gpu_unfold:
  "Backward_gpu top_vec propagate_down bottom m =
     caffe_gpu_mul (blob_count (top_vec ! 0)) (gpu_diff (bottom ! 0)) (gpu_data (top_vec ! 0))
       (gpu_diff (bottom ! 0))
       (kernel_channel_subtract (blob_count (top_vec ! 0)) (blob_num (top_vec ! 0))
          (blob_channels (top_vec ! 0)) (blob_height (top_vec ! 0) * blob_width (top_vec ! 0))
          Scale_data (gpu_diff (bottom ! 0))
          (kernel_channel_dot (blob_num (top_vec ! 0)) (blob_channels (top_vec ! 0))
             (blob_height (top_vec ! 0) * blob_width (top_vec ! 0))
             (gpu_diff (top_vec ! 0)) (gpu_data (top_vec ! 0)) Scale_data
             (caffe_copy (blob_count (top_vec ! 0)) (gpu_diff (top_vec ! 0))
                (gpu_diff (bottom ! 0)) m)))"
  by (simp add: Backward_gpu_def Let_def)

lemma Backward_gpu_elem:
  assumes "n < blob_num t" "c < blob_channels t" "s < blob_height t * blob_width t"
  shows "Backward_gpu (t # ts) propagate_down (b # bs) m (gpu_diff b)
           (offset (blob_channels t) (blob_height t * blob_width t) n c s) =
         (m (gpu_diff t) (offset (blob_channels t) (blob_height t * blob_width t) n c s)
          - (\<Sum>c'<blob_channels t.
               m (gpu_diff t) (offset (blob_channels t) (blob_height t * blob_width t) n c' s)
               * m (gpu_data t) (offset (blob_channels t) (blob_height t * blob_width t) n c' s)))
         * m (gpu_data t) (offset (blob_channels t) (blob_height t * blob_width t) n c s)"
proof -
  let ?C = "blob_channels t" and ?S = "blob_height t * blob_width t" and ?N = "blob_num t"
  let ?B = "gpu_diff b"
  define m1 where "m1 = caffe_copy (blob_count t) (gpu_diff t) ?B m"
  define m2 where "m2 = kernel_channel_dot ?N ?C ?S (gpu_diff t) (gpu_data t) Scale_data m1"
  define m3 where "m3 = kernel_channel_subtract (blob_count t) ?N ?C ?S Scale_data ?B m2"
  have ne: "gpu_diff t \<noteq> Scale_data" "gpu_data t \<noteq> Scale_data" "Scale_data \<noteq> ?B"
    "?B \<noteq> Scale_data" "gpu_data t \<noteq> ?B"
    by (simp_all add: gpu_data_def gpu_diff_def)
  have lt: "offset ?C ?S n c' s < blob_count t" if "c' < ?C" for c'
    using offset_less [OF assms(1) that assms(3)] by (simp add: blob_count_eq)
  have m1_data: "m1 (gpu_data t) = m (gpu_data t)"
    unfolding m1_def by (rule caffe_copy_frame) (rule ne)
  have m1_bdiff: "m1 ?B (offset ?C ?S n c' s) = m (gpu_diff t) (offset ?C ?S n c' s)"
    if "c' < ?C" for c'
    unfolding m1_def by (rule caffe_copy_elem) (rule lt [OF that])
  have m1_tdiff: "m1 (gpu_diff t) (offset ?C ?S n c' s) = m (gpu_diff t) (offset ?C ?S n c' s)"
    if "c' < ?C" for c'
  proof (cases "gpu_diff t = ?B")
    case True
    then show ?thesis using m1_bdiff [OF that] by simp
  next
    case False
    then show ?thesis by (simp add: m1_def caffe_copy_frame)
  qed
  have m2_scale: "m2 Scale_data (n * ?S + s) =
      (\<Sum>c'<?C. m (gpu_diff t) (offset ?C ?S n c' s) * m (gpu_data t) (offset ?C ?S n c' s))"
    unfolding m2_def using assms
    by (simp add: kernel_channel_dot_group [OF ne(1,2)] m1_tdiff m1_data)
  have m2_other: "m2 p = m1 p" if "p \<noteq> Scale_data" for p
    unfolding m2_def using that by (simp add: kernel_channel_dot_frame [OF ne(1,2)])
  have m3_bdiff: "m3 ?B (offset ?C ?S n c s) =
      m (gpu_diff t) (offset ?C ?S n c s)
      - (\<Sum>c'<?C. m (gpu_diff t) (offset ?C ?S n c' s) * m (gpu_data t) (offset ?C ?S n c' s))"
    unfolding m3_def using assms
    by (simp add: kernel_channel_subtract_elem [OF ne(3)] lt m2_scale m2_other [OF ne(4)] m1_bdiff)
  have m3_data: "m3 (gpu_data t) = m (gpu_data t)"
    unfolding m3_def
    by (simp add: kernel_channel_subtract_frame [OF ne(3) ne(5)] m2_other [OF ne(2)] m1_data)
  have "Backward_gpu (t # ts) propagate_down (b # bs) m =
        caffe_gpu_mul (blob_count t) ?B (gpu_data t) ?B m3"
    by (simp add: Backward_gpu_unfold m1_def m2_def m3_def)
  then show ?thesis
    using assms by (simp add: caffe_gpu_mul_elem lt m3_bdiff m3_data)
qed

lemma Backward_gpu_frame:
  assumes "p \<noteq> gpu_diff b" "p \<noteq> Scale_data"
  shows "Backward_gpu ts propagate_down (b # bs) m p = m p"
  using assms
  by (simp add: Backward_gpu_unfold caffe_gpu_mul_frame kernel_channel_subtract_frame
      kernel_channel_dot_frame caffe_copy_frame gpu_data_def gpu_diff_def)

subsection \<open>The concrete inputs, evaluated\<close>

lemma example_simps:
  "blob_num blob_in = 1" "blob_channels blob_in = 2"
  "blob_height blob_in * blob_width blob_in = 1"
  "blob_num blob_out = 1" "blob_channels blob_out = 2"
  "blob_height blob_out * blob_width blob_out = 1"
  "gpu_data blob_in = Gpu_data 0" "gpu_data blob_out = Gpu_data 1"
  "gpu_diff blob_in = Gpu_diff 0" "gpu_diff blob_out = Gpu_diff 1"
  by (simp_all add: blob_in_def blob_out_def gpu_data_def gpu_diff_def)

lemma blob_one_simps:
  "blob_num blob_one = 1" "blob_channels blob_one = 1"
  "blob_height blob_one * blob_width blob_one = 1"
  "gpu_data blob_one = Gpu_data 0" "gpu_data blob_one_out = Gpu_data 1"
  by (simp_all add: blob_one_def blob_one_out_def gpu_data_def)

lemma example_memory_float_range: "- FLT_MAX \<le> example_memory (Gpu_data k) i"
proof -
  have 1: "- FLT_MAX \<le> 0" by (simp add: FLT_MAX_def)
  have "(0::real) \<le> ln 3" by simp
  with 1 have 2: "- FLT_MAX \<le> ln 3" by (rule order_trans)
  show ?thesis using 1 2 by (simp add: example_memory_def del: neg_le_0_iff_le)
qed

lemma exp_Dtype_example: "exp_Dtype dtype (- ln 3) = 1 / 3"
proof -
  have "exp_Dtype dtype (- ln 3) = exp (- ln 3)"
    by (rule exp_Dtype_exact) (simp add: exp_minus)
  then show ?thesis by (simp add: exp_minus)
qed

lemma softmax_spec_example:
  "softmax_spec dtype (example_memory (Gpu_data k)) 2 1 0 0 0 = 1 / 4"
  "softmax_spec dtype (example_memory (Gpu_data k)) 2 1 0 1 0 = 3 / 4"
  by (simp_all add: softmax_spec_def group_max_def offset_def example_memory_def
      numeral_2_eq_2 lessThan_Suc exp_Dtype_example exp_Dtype_zero)

lemma low_memory_eval:
  "Forward_subtracted [blob_one] [blob_one_out] low_memory Scale_data 0 = - FLT_MAX"
  "Forward_subtracted [blob_one] [blob_one_out] low_memory (Gpu_data 1) 0 = FLT_MAX - 2 ^ 200"
  "Forward_summed dtype [blob_one] [blob_one_out] low_memory (Gpu_data 1) 0 = 0"
  "Forward_summed dtype [blob_one] [blob_one_out] low_memory Scale_data 0 = 0"
proof -
  have r: "(0::nat) < blob_num blob_one" "(0::nat) < blob_channels blob_one"
    "(0::nat) < blob_height blob_one * blob_width blob_one" "1 \<le> blob_channels blob_one"
    by (simp_all add: blob_one_simps)
  show "Forward_subtracted [blob_one] [blob_one_out] low_memory Scale_data 0 = - FLT_MAX"
    using Forward_subtracted_scale [OF r(1) r(3) r(4), of "[]" blob_one_out "[]" low_memory]
    by (simp add: blob_one_simps group_max_def offset_def lessThan_Suc low_memory_def
        FLT_MAX_def)
  show "Forward_subtracted [blob_one] [blob_one_out] low_memory (Gpu_data 1) 0 = FLT_MAX - 2 ^ 200"
    using Forward_subtracted_elem [OF r(1-3), of "[]" blob_one_out "[]" low_memory]
    by (simp add: blob_one_simps group_max_def offset_def lessThan_Suc low_memory_def
        FLT_MAX_def)
  show "Forward_summed dtype [blob_one] [blob_one_out] low_memory (Gpu_data 1) 0 = 0"
    using Forward_summed_elem [OF r(1-3), of dtype "[]" blob_one_out "[]" low_memory]
    by (simp add: blob_one_simps group_max_def offset_def lessThan_Suc low_memory_def
        FLT_MAX_def exp_Dtype_underflow)
  show "Forward_summed dtype [blob_one] [blob_one_out] low_memory Scale_data 0 = 0"
    using Forward_summed_group [OF r(1) r(3), of dtype "[]" blob_one_out "[]" low_memory]
    by (simp add: blob_one_simps group_max_def offset_def lessThan_Suc low_memory_def
        FLT_MAX_def exp_Dtype_underflow)
qed

lemma zero_memory_eval:
  "Forward_summed dtype [blob_one] [blob_one_out] zero_memory (Gpu_data 1) 0 = 1"
  "Forward_summed dtype [blob_one] [blob_one_out] zero_memory Scale_data 0 = 1"
proof -
  have r: "(0::nat) < blob_num blob_one" "(0::nat) < blob_channels blob_one"
    "(0::nat) < blob_height blob_one * blob_width blob_one"
    by (simp_all add: blob_one_simps)
  show "Forward_summed dtype [blob_one] [blob_one_out] zero_memory (Gpu_data 1) 0 = 1"
    using Forward_summed_elem [OF r(1-3), of dtype "[]" blob_one_out "[]" zero_memory]
    by (simp add: blob_one_simps group_max_def offset_def lessThan_Suc zero_memory_def
        FLT_MAX_def exp_Dtype_zero)
  show "Forward_summed dtype [blob_one] [blob_one_out] zero_memory Scale_data 0 = 1"
    using Forward_summed_group [OF r(1) r(3), of dtype "[]" blob_one_out "[]" zero_memory]
    by (simp add: blob_one_simps group_max_def offset_def lessThan_Suc zero_memory_def
        FLT_MAX_def exp_Dtype_zero)
qed

lemma low_memory_quotient:
  "Forward_gpu dtype backend [blob_one] [blob_one_out] m (Gpu_data 1) 0 =
   Forward_summed dtype [blob_one] [blob_one_out] m (Gpu_data 1) 0
   / Forward_summed dtype [blob_one] [blob_one_out] m Scale_data 0"
proof -
  have r: "(0::nat) < blob_num blob_one" "(0::nat) < blob_channels blob_one"
    "(0::nat) < blob_height blob_one * blob_width blob_one"
    by (simp_all add: blob_one_simps)
  show ?thesis
    using Forward_gpu_quotient [OF r, of dtype backend "[]" blob_one_out "[]" m]
    by (simp add: blob_one_simps offset_def)
qed

lemma softmax_spec_low_memory:
  "softmax_spec dtype (low_memory (Gpu_data 0)) 1 1 0 0 0 = 1"
  by (simp add: softmax_spec_def group_max_def offset_def low_memory_def lessThan_Suc
      exp_Dtype_zero)



lemma group_dot_example:
  "group_dot (example_memory (Gpu_diff j)) (example_memory (Gpu_data k)) 2 1 0 0 = 2 * ln 3"
  by (simp add: group_dot_def offset_def example_memory_def numeral_2_eq_2 lessThan_Suc)

section \<open>The claims\<close>

text \<open>
  C1 (forward pass correctness).  The claim: for every input tensor the forward pass
  leaves at \<open>(n, c, s)\<close> of the output
  \<open>exp (input[n,c,s] - max\<^sub>c input[n,c,s]) / sum\<^sub>c exp (input[n,c,s] - max\<^sub>c input[n,c,s])\<close>.
  For a tensor of \<open>double\<close> of shape \<open>1 \<times> 1 \<times> 1 \<times> 1\<close> holding \<open>- 2\<^sup>2\<^sup>0\<^sup>0\<close> the max stage
  leaves \<open>- FLT_MAX\<close>, not the maximum \<open>- 2\<^sup>2\<^sup>0\<^sup>0\<close> of the group; the subtract stage leaves
  \<open>FLT_MAX - 2\<^sup>2\<^sup>0\<^sup>0\<close>, whose exponential underflows; the divide stage divides \<open>0\<close> by \<open>0\<close>.
  The quotient of the claim is \<open>exp 0 / exp 0 = 1\<close>.
\<close>

theorem Forward_gpu_below_float_range:
  "Forward_subtracted [blob_one] [blob_one_out] low_memory Scale_data 0 = - FLT_MAX
   \<and> group_max (low_memory (gpu_data blob_one)) (blob_channels blob_one)
       (blob_height blob_one * blob_width blob_one) 0 0 = - (2 ^ 200)
   \<and> Forward_subtracted [blob_one] [blob_one_out] low_memory (gpu_data blob_one_out) 0 =
     FLT_MAX - 2 ^ 200
   \<and> Forward_summed Double [blob_one] [blob_one_out] low_memory (gpu_data blob_one_out) 0 = 0
   \<and> Forward_summed Double [blob_one] [blob_one_out] low_memory Scale_data 0 = 0
   \<and> Forward_gpu Double BACKEND_CUDA [blob_one] [blob_one_out] low_memory
       (gpu_data blob_one_out) 0 =
     Forward_summed Double [blob_one] [blob_one_out] low_memory (gpu_data blob_one_out) 0
     / Forward_summed Double [blob_one] [blob_one_out] low_memory Scale_data 0
   \<and> softmax_spec Double (low_memory (gpu_data blob_one)) (blob_channels blob_one)
       (blob_height blob_one * blob_width blob_one) 0 0 0 = 1"
proof -
  have "group_max (low_memory (Gpu_data 0)) 1 1 0 0 = - (2 ^ 200)"
    by (simp add: group_max_def low_memory_def lessThan_Suc)
  then show ?thesis
    unfolding blob_one_simps
    using low_memory_eval(1,2) low_memory_eval(3,4) [of Double]
      low_memory_quotient [of Double BACKEND_CUDA low_memory] softmax_spec_low_memory [of Double]
    by (intro conjI) assumption+
qed

text \<open>
  C2 (backward pass correctness).  Given the gradient with respect to the forward output
  (the diff buffer of the top blob) and the forward output itself (its data buffer), the
  backward pass leaves in the diff buffer of the bottom blob, for every \<open>n\<close>, \<open>c\<close>, \<open>s\<close>,
  \<open>output[n,c,s] * (grad_output[n,c,s] - dot\<^sub>c(grad_output, output)[n,s])\<close>, where \<open>dot\<^sub>c\<close>
  is the inner product over the channels of the group \<open>(n, s)\<close>; and the pass is the
  composition copy, channel dot, broadcast subtract, elementwise multiply, in this order.
\<close>

theorem Backward_gpu_correct:
  assumes "n < blob_num t" "c < blob_channels t" "s < blob_height t * blob_width t"
  shows "Backward_gpu (t # ts) propagate_down (b # bs) m (gpu_diff b)
           (offset (blob_channels t) (blob_height t * blob_width t) n c s) =
         m (gpu_data t) (offset (blob_channels t) (blob_height t * blob_width t) n c s)
         * (m (gpu_diff t) (offset (blob_channels t) (blob_height t * blob_width t) n c s)
            - group_dot (m (gpu_diff t)) (m (gpu_data t)) (blob_channels t)
                (blob_height t * blob_width t) n s)
       \<and> Backward_gpu (t # ts) propagate_down (b # bs) m =
         caffe_gpu_mul (blob_count t) (gpu_diff b) (gpu_data t) (gpu_diff b)
          (kernel_channel_subtract (blob_count t) (blob_num t) (blob_channels t)
             (blob_height t * blob_width t) Scale_data (gpu_diff b)
            (kernel_channel_dot (blob_num t) (blob_channels t) (blob_height t * blob_width t)
               (gpu_diff t) (gpu_data t) Scale_data
              (caffe_copy (blob_count t) (gpu_diff t) (gpu_diff b) m)))"
proof
  show "Backward_gpu (t # ts) propagate_down (b # bs) m (gpu_diff b)
           (offset (blob_channels t) (blob_height t * blob_width t) n c s) =
         m (gpu_data t) (offset (blob_channels t) (blob_height t * blob_width t) n c s)
         * (m (gpu_diff t) (offset (blob_channels t) (blob_height t * blob_width t) n c s)
            - group_dot (m (gpu_diff t)) (m (gpu_data t)) (blob_channels t)
                (blob_height t * blob_width t) n s)"
    unfolding Backward_gpu_elem [OF assms] group_dot_def by (rule mult.commute)
  show "Backward_gpu (t # ts) propagate_down (b # bs) m =
         caffe_gpu_mul (blob_count t) (gpu_diff b) (gpu_data t) (gpu_diff b)
          (kernel_channel_subtract (blob_count t) (blob_num t) (blob_channels t)
             (blob_height t * blob_width t) Scale_data (gpu_diff b)
            (kernel_channel_dot (blob_num t) (blob_channels t) (blob_height t * blob_width t)
               (gpu_diff t) (gpu_data t) Scale_data
              (caffe_copy (blob_count t) (gpu_diff t) (gpu_diff b) m)))"
    by (simp add: Backward_gpu_unfold)
qed

theorem Backward_gpu_correct_witness:
  "(0::nat) < blob_num blob_out \<and> (1::nat) < blob_channels blob_out
   \<and> (0::nat) < blob_height blob_out * blob_width blob_out
   \<and> Backward_gpu [blob_out] [True] [blob_in] example_memory (gpu_diff blob_in)
        (offset (blob_channels blob_out) (blob_height blob_out * blob_width blob_out) 0 1 0) =
      ln 3 * (2 - 2 * ln 3)"
proof -
  have h: "(0::nat) < blob_num blob_out" "(1::nat) < blob_channels blob_out"
    "(0::nat) < blob_height blob_out * blob_width blob_out"
    by (simp_all add: example_simps)
  have "Backward_gpu [blob_out] [True] [blob_in] example_memory (gpu_diff blob_in)
          (offset (blob_channels blob_out) (blob_height blob_out * blob_width blob_out) 0 1 0) =
        example_memory (gpu_data blob_out)
          (offset (blob_channels blob_out) (blob_height blob_out * blob_width blob_out) 0 1 0)
        * (example_memory (gpu_diff blob_out)
             (offset (blob_channels blob_out) (blob_height blob_out * blob_width blob_out) 0 1 0)
           - group_dot (example_memory (gpu_diff blob_out)) (example_memory (gpu_data blob_out))
               (blob_channels blob_out) (blob_height blob_out * blob_width blob_out) 0 0)"
    using Backward_gpu_correct [OF h, of "[]" "[True]" blob_in "[]" example_memory]
    by (rule conjunct1)
  also have "\<dots> = ln 3 * (2 - 2 * ln 3)"
    unfolding example_simps group_dot_example by (simp add: offset_def example_memory_def)
  finally show ?thesis using h by simp
qed

text \<open>
  C3 (channel maximum).  The claim: for every input tensor with \<open>channels \<ge> 1\<close> and every
  group \<open>(n, s)\<close> the kernel writes the maximum over the channels, the scan starting from
  the most negative finite value of the element type of the tensor.  The kernel starts
  the scan from \<open>- FLT_MAX\<close> whatever the element type is.  For a tensor of \<open>double\<close> of
  shape \<open>1 \<times> 1 \<times> 1\<close> holding \<open>- 2\<^sup>2\<^sup>0\<^sup>0\<close>, a finite value of the type, the kernel writes
  \<open>- FLT_MAX\<close>, and the maximum of the group is \<open>- 2\<^sup>2\<^sup>0\<^sup>0\<close>.
\<close>

theorem kernel_channel_max_below_float_range:
  "kernel_channel_max 1 1 1 (Gpu_data 0) Scale_data low_memory Scale_data 0 = - FLT_MAX
   \<and> group_max (low_memory (Gpu_data 0)) 1 1 0 0 = - (2 ^ 200)
   \<and> - DBL_MAX \<le> low_memory (Gpu_data 0) 0
   \<and> low_memory (Gpu_data 0) 0 < - FLT_MAX
   \<and> - FLT_MAX \<noteq> - DBL_MAX"
proof -
  have "kernel_channel_max 1 1 1 (Gpu_data 0) Scale_data low_memory Scale_data 0 = - FLT_MAX"
    by (simp add: kernel_channel_max_def CUDA_KERNEL_LOOP_def store_def low_memory_def
        FLT_MAX_def)
  moreover have "group_max (low_memory (Gpu_data 0)) 1 1 0 0 = - (2 ^ 200)"
    by (simp add: group_max_def low_memory_def lessThan_Suc)
  moreover have "- DBL_MAX \<le> low_memory (Gpu_data 0) 0" "low_memory (Gpu_data 0) 0 < - FLT_MAX"
    "- FLT_MAX \<noteq> - DBL_MAX"
    by (simp_all add: low_memory_def FLT_MAX_def DBL_MAX_def)
  ultimately show ?thesis by simp
qed




text \<open>
  C5 (shift invariance).  The claim: the forward pass on \<open>x'\<close> with
  \<open>x'[n,c,s] = x[n,c,s] + k[n,s]\<close> produces the same output as on \<open>x\<close>.  For the tensor
  \<open>x\<close> of \<open>double\<close> of shape \<open>1 \<times> 1 \<times> 1 \<times> 1\<close> holding \<open>- 2\<^sup>2\<^sup>0\<^sup>0\<close> and \<open>k = 2\<^sup>2\<^sup>0\<^sup>0\<close>, the tensor
  \<open>x'\<close> holds \<open>0\<close>: on \<open>x'\<close> the divide stage divides \<open>1\<close> by \<open>1\<close> and the output is \<open>1\<close>; on
  \<open>x\<close> the max stage leaves \<open>- FLT_MAX\<close> and the divide stage divides \<open>0\<close> by \<open>0\<close>.
\<close>

theorem Forward_gpu_shift_below_float_range:
  "zero_memory (gpu_data blob_one) 0 = low_memory (gpu_data blob_one) 0 + 2 ^ 200
   \<and> Forward_summed Double [blob_one] [blob_one_out] zero_memory (gpu_data blob_one_out) 0 = 1
   \<and> Forward_summed Double [blob_one] [blob_one_out] zero_memory Scale_data 0 = 1
   \<and> Forward_gpu Double BACKEND_CUDA [blob_one] [blob_one_out] zero_memory
       (gpu_data blob_one_out) 0 = 1
   \<and> Forward_summed Double [blob_one] [blob_one_out] low_memory (gpu_data blob_one_out) 0 = 0
   \<and> Forward_summed Double [blob_one] [blob_one_out] low_memory Scale_data 0 = 0
   \<and> Forward_gpu Double BACKEND_CUDA [blob_one] [blob_one_out] low_memory
       (gpu_data blob_one_out) 0 =
     Forward_summed Double [blob_one] [blob_one_out] low_memory (gpu_data blob_one_out) 0
     / Forward_summed Double [blob_one] [blob_one_out] low_memory Scale_data 0"
proof -
  have "zero_memory (Gpu_data 0) 0 = low_memory (Gpu_data 0) 0 + 2 ^ 200"
    by (simp add: zero_memory_def low_memory_def)
  moreover have "Forward_gpu Double BACKEND_CUDA [blob_one] [blob_one_out] zero_memory
      (Gpu_data 1) 0 = 1"
    unfolding low_memory_quotient zero_memory_eval by simp
  ultimately show ?thesis
    unfolding blob_one_simps
    using low_memory_eval(3,4) [of Double] zero_memory_eval [of Double]
      low_memory_quotient [of Double BACKEND_CUDA low_memory]
    by (intro conjI) assumption+
qed

text \<open>
  C6 (stability invariant).  In the forward pass, every element of the working tensor
  right after the subtract stage (the input minus what the max stage left for its group)
  is at most \<open>0\<close>; the exponentiation stage runs on this memory, so its argument is never
  positive.
\<close>

theorem Forward_subtracted_nonpositive:
  assumes "i < blob_count b"
  shows "Forward_subtracted (b # bs) (t # ts) m (gpu_data t) i \<le> 0
       \<and> Forward_gpu dtype backend (b # bs) (t # ts) m =
         kernel_channel_div (blob_count b) (blob_num b) (blob_channels b)
           (blob_height b * blob_width b) Scale_data (gpu_data t)
          (kernel_channel_sum (blob_num b) (blob_channels b) (blob_height b * blob_width b)
             (gpu_data t) Scale_data
            (kernel_exp dtype (blob_num b * blob_channels b * (blob_height b * blob_width b))
               (gpu_data t) (gpu_data t)
              (Forward_subtracted (b # bs) (t # ts) m)))"
proof
  let ?C = "blob_channels b" and ?S = "blob_height b * blob_width b"
  have "i < blob_num b * ?C * ?S"
    using assms by (simp add: blob_count_eq)
  from offset_decompose [OF this]
  have i: "i = offset ?C ?S (i div ?C div ?S) (i div ?S mod ?C) (i mod ?S)"
    and r: "i div ?C div ?S < blob_num b" "i div ?S mod ?C < ?C" "i mod ?S < ?S"
    by blast+
  have "Forward_subtracted (b # bs) (t # ts) m (gpu_data t)
          (offset ?C ?S (i div ?C div ?S) (i div ?S mod ?C) (i mod ?S)) \<le> 0"
    by (rule Forward_subtracted_le_zero) (rule r)+
  then show "Forward_subtracted (b # bs) (t # ts) m (gpu_data t) i \<le> 0"
    using i by simp
  show "Forward_gpu dtype backend (b # bs) (t # ts) m =
         kernel_channel_div (blob_count b) (blob_num b) (blob_channels b)
           (blob_height b * blob_width b) Scale_data (gpu_data t)
          (kernel_channel_sum (blob_num b) (blob_channels b) (blob_height b * blob_width b)
             (gpu_data t) Scale_data
            (kernel_exp dtype (blob_num b * blob_channels b * (blob_height b * blob_width b))
               (gpu_data t) (gpu_data t)
              (Forward_subtracted (b # bs) (t # ts) m)))"
    by (simp add: Forward_gpu_unfold Forward_summed_def Let_def)
qed

theorem Forward_subtracted_nonpositive_witness:
  "(1::nat) < blob_count blob_in
   \<and> Forward_subtracted [blob_in] [blob_out] example_memory (gpu_data blob_out) 1 \<le> 0"
proof -
  have h: "(1::nat) < blob_count blob_in"
    by (simp add: blob_count_def blob_in_def)
  show ?thesis
    using h Forward_subtracted_nonpositive [OF h, of "[]" blob_out "[]" example_memory Double BACKEND_CUDA]
    by blast
qed

text \<open>
  C7 (the divisor is not zero).  The claim: with \<open>channels \<ge> 1\<close> every scalar that the
  divide stage reads is strictly positive.  For a tensor of \<open>double\<close> of shape
  \<open>1 \<times> 1 \<times> 1 \<times> 1\<close> holding \<open>- 2\<^sup>2\<^sup>0\<^sup>0\<close> the max stage leaves \<open>- FLT_MAX\<close>, the exponential of
  \<open>FLT_MAX - 2\<^sup>2\<^sup>0\<^sup>0\<close> underflows, and the scalar of the only group, which the divide stage
  reads, is \<open>0\<close>.
\<close>

theorem Forward_divisor_zero_below_float_range:
  "1 \<le> blob_channels blob_one
   \<and> Forward_subtracted [blob_one] [blob_one_out] low_memory Scale_data 0 = - FLT_MAX
   \<and> Forward_summed Double [blob_one] [blob_one_out] low_memory Scale_data 0 = 0
   \<and> Forward_gpu Double BACKEND_CUDA [blob_one] [blob_one_out] low_memory =
     kernel_channel_div (blob_count blob_one) (blob_num blob_one) (blob_channels blob_one)
       (blob_height blob_one * blob_width blob_one) Scale_data (gpu_data blob_one_out)
       (Forward_summed Double [blob_one] [blob_one_out] low_memory)"
proof -
  have "Forward_gpu Double BACKEND_CUDA [blob_one] [blob_one_out] low_memory =
     kernel_channel_div (blob_count blob_one) (blob_num blob_one) (blob_channels blob_one)
       (blob_height blob_one * blob_width blob_one) Scale_data (gpu_data blob_one_out)
       (Forward_summed Double [blob_one] [blob_one_out] low_memory)"
    by (simp add: Forward_gpu_unfold)
  moreover have "1 \<le> blob_channels blob_one"
    by (simp add: blob_one_simps)
  ultimately show ?thesis
    using low_memory_eval(1) low_memory_eval(4) [of Double] by (intro conjI) assumption+
qed

text \<open>
  C8 (index decomposition of the broadcast).  With \<open>count = num * channels * spatial_dim\<close>
  and the scalar buffer another buffer than the data buffer, the subtract kernel leaves
  at every linear index \<open>i < count\<close> the old element minus
  \<open>scalar[n * spatial_dim + s]\<close> with \<open>n = i / (channels * spatial_dim)\<close> and
  \<open>s = i % spatial_dim\<close>; that is, every element \<open>(n, c, s)\<close> has the scalar of its own
  group \<open>(n, s)\<close> subtracted, whatever \<open>c\<close> is.
\<close>

theorem kernel_channel_subtract_index:
  assumes "channel_max \<noteq> data"
  shows "(\<forall>i<num * channels * spatial_dim.
            kernel_channel_subtract (num * channels * spatial_dim) num channels spatial_dim
              channel_max data m data i =
            m data i - m channel_max (i div (channels * spatial_dim) * spatial_dim
                                      + i mod spatial_dim))
       \<and> (\<forall>n<num. \<forall>c<channels. \<forall>s<spatial_dim.
            kernel_channel_subtract (num * channels * spatial_dim) num channels spatial_dim
              channel_max data m data (offset channels spatial_dim n c s) =
            m data (offset channels spatial_dim n c s) - m channel_max (n * spatial_dim + s))"
proof (intro conjI allI impI)
  fix i assume "i < num * channels * spatial_dim"
  then show "kernel_channel_subtract (num * channels * spatial_dim) num channels spatial_dim
               channel_max data m data i =
             m data i - m channel_max (i div (channels * spatial_dim) * spatial_dim
                                       + i mod spatial_dim)"
    by (simp add: kernel_channel_subtract_eq [OF assms] div_mult2_eq)
next
  fix n c s assume "n < num" "c < channels" "s < spatial_dim"
  then show "kernel_channel_subtract (num * channels * spatial_dim) num channels spatial_dim
               channel_max data m data (offset channels spatial_dim n c s) =
             m data (offset channels spatial_dim n c s) - m channel_max (n * spatial_dim + s)"
    by (simp add: kernel_channel_subtract_elem [OF assms] offset_less)
qed

theorem kernel_channel_subtract_index_witness:
  "Scale_data \<noteq> Gpu_data 0
   \<and> kernel_channel_subtract (2 * 2 * 2) 2 2 2 Scale_data (Gpu_data 0) index_memory
       (Gpu_data 0) 5 = 2
   \<and> kernel_channel_subtract (2 * 2 * 2) 2 2 2 Scale_data (Gpu_data 0) index_memory
       (Gpu_data 0) (offset 2 2 1 1 0) = 4"
  using kernel_channel_subtract_index [of Scale_data "Gpu_data 0" 2 2 2 index_memory]
  by (simp add: index_memory_def offset_def)

text \<open>
  C9 (the input tensor is not modified).  The claim: for every input, the bottom data
  buffer holds after the forward pass the values it held on entry.  In an in-place call,
  \<open>top[0]\<close> is \<open>bottom[0]\<close>, the output buffer is the bottom data buffer, and the pass
  overwrites it: on the input \<open>[0, ln 3]\<close> its first element becomes \<open>1 / 4\<close>.
\<close>

theorem Forward_gpu_in_place_overwrites_input:
  "Forward_gpu Double BACKEND_CUDA [blob_in] [blob_in] example_memory (gpu_data blob_in) 0 = 1 / 4
   \<and> example_memory (gpu_data blob_in) 0 = 0"
proof -
  have "Forward_gpu Double BACKEND_CUDA [blob_in] [blob_in] example_memory (gpu_data blob_in)
          (offset (blob_channels blob_in) (blob_height blob_in * blob_width blob_in) 0 0 0) =
        softmax_spec Double (example_memory (gpu_data blob_in)) (blob_channels blob_in)
          (blob_height blob_in * blob_width blob_in) 0 0 0"
    by (rule Forward_gpu_softmax) (simp_all add: example_simps example_memory_float_range)
  also have "\<dots> = 1 / 4"
    unfolding example_simps by (rule softmax_spec_example)
  finally show ?thesis
    by (simp add: example_simps offset_def example_memory_def)
qed

text \<open>
  C9, amended.  When the top blob is another blob than the bottom blob, the bottom data
  buffer holds after the forward pass exactly the values it held on entry; and in every
  such call all writes go to the output buffer and the scratch buffer only.
\<close>

theorem Forward_gpu_input_unchanged:
  assumes "blob_id t \<noteq> blob_id b"
  shows "Forward_gpu dtype backend (b # bs) (t # ts) m (gpu_data b) = m (gpu_data b)
       \<and> (\<forall>p. p \<noteq> gpu_data t \<and> p \<noteq> Scale_data \<longrightarrow>
            Forward_gpu dtype backend (b # bs) (t # ts) m p = m p)"
proof -
  have "gpu_data b \<noteq> gpu_data t" "gpu_data b \<noteq> Scale_data"
    using assms by (simp_all add: gpu_data_def)
  then show ?thesis
    by (simp add: Forward_gpu_frame)
qed

theorem Forward_gpu_input_unchanged_witness:
  "blob_id blob_out \<noteq> blob_id blob_in
   \<and> Forward_gpu Double BACKEND_CUDA [blob_in] [blob_out] example_memory (gpu_data blob_in) =
     example_memory (gpu_data blob_in)
   \<and> Forward_gpu Double BACKEND_CUDA [blob_in] [blob_out] example_memory (Gpu_diff 0) =
     example_memory (Gpu_diff 0)"
proof -
  have h: "blob_id blob_out \<noteq> blob_id blob_in"
    by (simp add: blob_in_def blob_out_def)
  show ?thesis
    using h Forward_gpu_input_unchanged [OF h, where dtype = Double and backend = BACKEND_CUDA
        and bs = "[]" and ts = "[]" and m = example_memory]
    by (simp add: example_simps)
qed

text \<open>
  C10 (the argument \<open>propagate_down\<close> is ignored).  The result of the backward pass is the
  same for any two values of \<open>propagate_down\<close>, and with every entry of \<open>propagate_down\<close>
  false the pass still writes the bottom gradient, the value that depends on the top
  gradient and the top data only.
\<close>

theorem Backward_gpu_ignores_propagate_down:
  assumes "n < blob_num t" "c < blob_channels t" "s < blob_height t * blob_width t"
  shows "Backward_gpu top_vec propagate_down bottom m' =
         Backward_gpu top_vec propagate_down' bottom m'
       \<and> Backward_gpu (t # ts) (replicate k False) (b # bs) m (gpu_diff b)
           (offset (blob_channels t) (blob_height t * blob_width t) n c s) =
         m (gpu_data t) (offset (blob_channels t) (blob_height t * blob_width t) n c s)
         * (m (gpu_diff t) (offset (blob_channels t) (blob_height t * blob_width t) n c s)
            - group_dot (m (gpu_diff t)) (m (gpu_data t)) (blob_channels t)
                (blob_height t * blob_width t) n s)"
proof
  show "Backward_gpu top_vec propagate_down bottom m' =
        Backward_gpu top_vec propagate_down' bottom m'"
    by (simp add: Backward_gpu_def)
  show "Backward_gpu (t # ts) (replicate k False) (b # bs) m (gpu_diff b)
           (offset (blob_channels t) (blob_height t * blob_width t) n c s) =
         m (gpu_data t) (offset (blob_channels t) (blob_height t * blob_width t) n c s)
         * (m (gpu_diff t) (offset (blob_channels t) (blob_height t * blob_width t) n c s)
            - group_dot (m (gpu_diff t)) (m (gpu_data t)) (blob_channels t)
                (blob_height t * blob_width t) n s)"
    unfolding Backward_gpu_elem [OF assms] group_dot_def by (rule mult.commute)
qed

theorem Backward_gpu_ignores_propagate_down_witness:
  "(0::nat) < blob_num blob_out \<and> (1::nat) < blob_channels blob_out
   \<and> (0::nat) < blob_height blob_out * blob_width blob_out
   \<and> Backward_gpu [blob_out] [False] [blob_in] example_memory =
     Backward_gpu [blob_out] [True] [blob_in] example_memory
   \<and> Backward_gpu [blob_out] [False] [blob_in] example_memory (gpu_diff blob_in)
        (offset (blob_channels blob_out) (blob_height blob_out * blob_width blob_out) 0 1 0) =
      ln 3 * (2 - 2 * ln 3)"
proof -
  have h: "(0::nat) < blob_num blob_out" "(1::nat) < blob_channels blob_out"
    "(0::nat) < blob_height blob_out * blob_width blob_out"
    by (simp_all add: example_simps)
  note w = Backward_gpu_ignores_propagate_down [OF h, of "[blob_out]" "[False]" "[blob_in]"
      example_memory "[True]" "[]" 1 blob_in "[]" example_memory]
  have "Backward_gpu [blob_out] [False] [blob_in] example_memory (gpu_diff blob_in)
          (offset (blob_channels blob_out) (blob_height blob_out * blob_width blob_out) 0 1 0) =
        example_memory (gpu_data blob_out)
          (offset (blob_channels blob_out) (blob_height blob_out * blob_width blob_out) 0 1 0)
        * (example_memory (gpu_diff blob_out)
             (offset (blob_channels blob_out) (blob_height blob_out * blob_width blob_out) 0 1 0)
           - group_dot (example_memory (gpu_diff blob_out)) (example_memory (gpu_data blob_out))
               (blob_channels blob_out) (blob_height blob_out * blob_width blob_out) 0 0)"
    using w [THEN conjunct2] by simp
  also have "\<dots> = ln 3 * (2 - 2 * ln 3)"
    unfolding example_simps group_dot_example by (simp add: offset_def example_memory_def)
  finally show ?thesis using h w [THEN conjunct1] by simp
qed

end
